theory Spec2Isabelle
  imports Complex_Main "HOL-Library.Word"
begin

unbundle bit_operations_syntax

section \<open>trainingdata-tool: PGN games to V4 training records\<close>

text \<open>
  A shallow embedding of \<^verbatim>\<open>src/trainingdata-tool.cpp\<close>. The chess libraries the
  tool links against (polyglot's move generator and PGN reader, lc0's board, encoder and
  chunk writer) are not part of the file: what they answer is an input of the model.
  So is what \<^verbatim>\<open>std::regex_search\<close> and \<^verbatim>\<open>std::stof\<close> answer; the check that
  the constructor of \<^verbatim>\<open>std::regex\<close> makes of a pattern is modelled.
  A \<^verbatim>\<open>float\<close> that is only assigned and compared is a \<open>real\<close> (its rounding is
  not modelled); the probability array, which the code fills bytewise, is a list of
  IEEE-754 binary32 bit patterns.
\<close>

subsection \<open>Failures\<close>

text \<open>
  Every way the code can stop other than by returning: an exception of the standard
  library that nothing catches, and the undefined behaviour of a null pointer, an array
  index out of range and a division by zero.
\<close>

datatype failure =
    Out_of_range            \<comment> \<open>\<^verbatim>\<open>std::out_of_range\<close> thrown by \<^verbatim>\<open>std::stof\<close> or \<^verbatim>\<open>at\<close>\<close>
  | Null_writer             \<comment> \<open>\<^verbatim>\<open>writer->WriteChunk\<close> with \<^verbatim>\<open>writer == nullptr\<close>\<close>
  | Index_out_of_bounds     \<comment> \<open>an array subscript outside the array\<close>
  | Division_by_zero        \<comment> \<open>\<^verbatim>\<open>game_id / max_games_per_directory\<close> with a zero divisor\<close>
  | Regex_error             \<comment> \<open>\<^verbatim>\<open>std::regex_error\<close> thrown when a pattern is built\<close>

subsection \<open>Bit reversal inside bytes\<close>

definition resever_bits_in_bytes :: "64 word \<Rightarrow> 64 word" where
  "resever_bits_in_bytes v0 =
     (let v1 = (drop_bit 1 v0 AND 0x5555555555555555) OR push_bit 1 (v0 AND 0x5555555555555555);
          v2 = (drop_bit 2 v1 AND 0x3333333333333333) OR push_bit 2 (v1 AND 0x3333333333333333);
          v3 = (drop_bit 4 v2 AND 0x0F0F0F0F0F0F0F0F) OR push_bit 4 (v2 AND 0x0F0F0F0F0F0F0F0F)
      in v3)"

subsection \<open>Moves, positions and the training record\<close>

datatype GameResult = WHITE_WON | BLACK_WON | DRAW

datatype Promotion = NoPromotion | Knight | Bishop | Rook | Queen

text \<open>
  Modelled from the spec: \<^verbatim>\<open>lczero::BoardSquare\<close> and \<^verbatim>\<open>lczero::Move\<close> are declared
  in lc0's \<^verbatim>\<open>chess/bitboard.h\<close>, which is not among the sources. A square is its number
  \<open>row * 8 + col\<close> (0 is a1, 63 is h8); a move holds its two squares, its promotion piece
  and its castling flag; mirroring flips the rank of both squares and keeps the files.
\<close>

definition BoardSquare :: "nat \<Rightarrow> nat \<Rightarrow> nat" where
  "BoardSquare row col = row * 8 + col"

record Move =
  from_sq :: nat
  to_sq :: nat
  promotion :: Promotion
  castling :: bool

definition Move_of :: "nat \<Rightarrow> nat \<Rightarrow> Move" where
  "Move_of f t = \<lparr>from_sq = f, to_sq = t, promotion = NoPromotion, castling = False\<rparr>"

definition SetTo :: "nat \<Rightarrow> Move \<Rightarrow> Move" where
  "SetTo t m = m\<lparr>to_sq := t\<rparr>"

definition SetPromotion :: "Promotion \<Rightarrow> Move \<Rightarrow> Move" where
  "SetPromotion p m = m\<lparr>promotion := p\<rparr>"

definition SetCastling :: "Move \<Rightarrow> Move" where
  "SetCastling m = m\<lparr>castling := True\<rparr>"

definition Mirror :: "Move \<Rightarrow> Move" where
  "Mirror m = m\<lparr>from_sq := from_sq m XOR 56, to_sq := to_sq m XOR 56\<rparr>"

text \<open>
  What the code reads from \<^verbatim>\<open>history.Last()\<close> and from the plane encoder. The field
  \<open>encoded_planes\<close> holds the masks of \<^verbatim>\<open>EncodePositionForNN(history, 8, FEN_ONLY)\<close>
  that the record's plane array takes, in order.
\<close>

record Position =
  IsBlackToMove :: bool
  WE_CAN_OOO :: bool
  WE_CAN_OO :: bool
  THEY_CAN_OOO :: bool
  THEY_CAN_OO :: bool
  GetNoCaptureNoPawnPly :: nat

record PositionHistory =
  Last :: Position
  encoded_planes :: "64 word list"

text \<open>
  The record \<^verbatim>\<open>lczero::V4TrainingData\<close>. \<open>probabilities\<close> is the array of
  \<^verbatim>\<open>float\<close>s as bit patterns; \<open>result\<close> is the signed byte, and
  \<open>rule50_count\<close> an unsigned byte: the ply count is stored modulo 256.
\<close>

record V4TrainingData =
  version :: nat
  probabilities :: "32 word list"
  planes :: "64 word list"
  castling_us_ooo :: nat
  castling_us_oo :: nat
  castling_them_ooo :: nat
  castling_them_oo :: nat
  side_to_move :: nat
  move_count :: nat
  rule50_count :: nat
  result :: int
  root_q :: real
  best_q :: real
  root_d :: real
  best_d :: real

text \<open>
  Modelled from the spec: the fixed size of the move-probability vector. lc0 declares
  \<^verbatim>\<open>float probabilities[1858]\<close>; the declaration is not among the sources.
\<close>

definition kNumOutputPolicy :: nat where
  "kNumOutputPolicy = 1858"

text \<open>The binary32 encodings of the three values the comments of the code name.\<close>

definition f32_zero :: "32 word" where
  "f32_zero = 0x00000000"

definition f32_one :: "32 word" where
  "f32_one = 0x3F800000"

definition f32_minus_one :: "32 word" where
  "f32_minus_one = 0xBF800000"

text \<open>
  \<^verbatim>\<open>std::memset(dst, c, n)\<close> takes its value as an \<^verbatim>\<open>int\<close>, converts it to
  \<^verbatim>\<open>unsigned char\<close> and stores that byte \<open>n\<close> times. A \<^verbatim>\<open>float\<close> argument is first
  converted to \<^verbatim>\<open>int\<close> by truncation. Each \<^verbatim>\<open>float\<close> of the array is then four
  copies of the byte.
\<close>

definition float_to_int :: "real \<Rightarrow> int" where
  "float_to_int x = (if 0 \<le> x then \<lfloor>x\<rfloor> else \<lceil>x\<rceil>)"

definition memset_float :: "int \<Rightarrow> 32 word" where
  "memset_float c =
     (let b = (word_of_int c :: 8 word)
      in word_cat b (word_cat b (word_cat b b :: 16 word) :: 24 word))"

definition memset_floats :: "int \<Rightarrow> nat \<Rightarrow> 32 word list" where
  "memset_floats c n = replicate n (memset_float c)"

text \<open>A store into the array; outside the array the C++ is undefined.\<close>

definition set_probability :: "32 word list \<Rightarrow> nat \<Rightarrow> 32 word \<Rightarrow> failure + 32 word list" where
  "set_probability ps i v = (if i < length ps then Inr (ps[i := v]) else Inl Index_out_of_bounds)"

fun populate_legal_moves ::
  "(Move \<Rightarrow> nat) \<Rightarrow> Move list \<Rightarrow> 32 word list \<Rightarrow> failure + 32 word list" where
  "populate_legal_moves as_nn_index [] ps = Inr ps"
| "populate_legal_moves as_nn_index (move # rest) ps =
     (case set_probability ps (as_nn_index move) f32_zero of
        Inl e \<Rightarrow> Inl e
      | Inr ps' \<Rightarrow> populate_legal_moves as_nn_index rest ps')"

text \<open>
  \<^verbatim>\<open>get_v4_training_data\<close>. The index of a move in the policy vector,
  \<^verbatim>\<open>Move::as_nn_index\<close>, is lc0's table and a parameter here.
\<close>

definition get_v4_training_data ::
  "(Move \<Rightarrow> nat) \<Rightarrow> GameResult \<Rightarrow> PositionHistory \<Rightarrow> Move \<Rightarrow> Move list \<Rightarrow> real
     \<Rightarrow> failure + V4TrainingData" where
  "get_v4_training_data as_nn_index game_result history played_move legal_moves Q =
     (case populate_legal_moves as_nn_index legal_moves
             (memset_floats (float_to_int (- 1)) kNumOutputPolicy) of
        Inl e \<Rightarrow> Inl e
      | Inr probs0 \<Rightarrow>
          (case set_probability probs0 (as_nn_index played_move) f32_one of
             Inl e \<Rightarrow> Inl e
           | Inr probs \<Rightarrow>
               (let position = Last history
                in Inr \<lparr>version = 4,
                     probabilities = probs,
                     planes = map resever_bits_in_bytes (encoded_planes history),
                     castling_us_ooo = (if WE_CAN_OOO position then 1 else 0),
                     castling_us_oo = (if WE_CAN_OO position then 1 else 0),
                     castling_them_ooo = (if THEY_CAN_OOO position then 1 else 0),
                     castling_them_oo = (if THEY_CAN_OO position then 1 else 0),
                     side_to_move = (if IsBlackToMove position then 1 else 0),
                     move_count = 0,
                     rule50_count = GetNoCaptureNoPawnPly position mod 256,
                     result =
                       (if game_result = WHITE_WON then (if IsBlackToMove position then - 1 else 1)
                        else if game_result = BLACK_WON then (if IsBlackToMove position then 1 else - 1)
                        else 0),
                     root_q = (if IsBlackToMove position then - Q else Q),
                     best_q = (if IsBlackToMove position then - Q else Q),
                     root_d =
                       (if game_result = WHITE_WON then 0
                        else if game_result = BLACK_WON then 0
                        else 1),
                     best_d =
                       (if game_result = WHITE_WON then 0
                        else if game_result = BLACK_WON then 0
                        else 1)\<rparr>)))"

subsection \<open>The score in a comment\<close>

text \<open>
  \<^verbatim>\<open>extract_fishtest_comment_score\<close> first builds its two patterns,
  \<^verbatim>\<open>{(-?\d+\.\d+)\/\<close> and \<^verbatim>\<open>{#(-?\d+)\/\<close>, as \<^verbatim>\<open>std::regex\<close> objects in the
  default (ECMAScript) grammar. The constructor throws \<^verbatim>\<open>std::regex_error\<close> for a
  pattern that the grammar does not derive. \<open>scan_pattern\<close> is the syntax check, one
  character at a time: a pattern is a sequence of terms and bars; a term is an assertion
  (\<^verbatim>\<open>^\<close>, \<^verbatim>\<open>$\<close>) or an atom followed by quantifiers; an atom is an ordinary
  character, an escape, a bracket expression or a group in parentheses; a quantifier is
  \<^verbatim>\<open>*\<close>, \<^verbatim>\<open>+\<close>, \<^verbatim>\<open>?\<close> or a count in braces, and it needs an atom before it.
  Of an escape and of a bracket expression only the extent is checked, which is all that
  the two patterns need.
\<close>

definition is_digit :: "char \<Rightarrow> bool" where
  "is_digit c = (c \<in> set ''0123456789'')"

definition backslash :: char where
  "backslash = CHR 0x5C"

datatype scan =
    Expect_term             \<comment> \<open>at the start of a term\<close>
  | After_atom              \<comment> \<open>after an atom or one of its quantifiers\<close>
  | After_paren             \<comment> \<open>just after an opening parenthesis\<close>
  | After_paren_question    \<comment> \<open>after \<^verbatim>\<open>(?\<close>\<close>
  | In_escape               \<comment> \<open>after a backslash\<close>
  | In_bracket              \<comment> \<open>inside a bracket expression\<close>
  | In_bracket_escape       \<comment> \<open>after a backslash inside a bracket expression\<close>
  | Brace_open              \<comment> \<open>after the brace that opens a count\<close>
  | Brace_min               \<comment> \<open>in the digits of the lower count\<close>
  | Brace_max               \<comment> \<open>after the comma of a count\<close>

fun scan_pattern :: "scan \<Rightarrow> nat \<Rightarrow> string \<Rightarrow> bool" where
  "scan_pattern st depth [] = (depth = 0 \<and> (st = Expect_term \<or> st = After_atom))"
| "scan_pattern In_escape depth (c # cs) = scan_pattern After_atom depth cs"
| "scan_pattern In_bracket depth (c # cs) =
     (if c = CHR '']'' then scan_pattern After_atom depth cs
      else if c = backslash then scan_pattern In_bracket_escape depth cs
      else scan_pattern In_bracket depth cs)"
| "scan_pattern In_bracket_escape depth (c # cs) = scan_pattern In_bracket depth cs"
| "scan_pattern Brace_open depth (c # cs) =
     (is_digit c \<and> scan_pattern Brace_min depth cs)"
| "scan_pattern Brace_min depth (c # cs) =
     (if is_digit c then scan_pattern Brace_min depth cs
      else if c = CHR '','' then scan_pattern Brace_max depth cs
      else c = CHR ''}'' \<and> scan_pattern After_atom depth cs)"
| "scan_pattern Brace_max depth (c # cs) =
     (if is_digit c then scan_pattern Brace_max depth cs
      else c = CHR ''}'' \<and> scan_pattern After_atom depth cs)"
| "scan_pattern After_paren_question depth (c # cs) =
     ((c = CHR '':'' \<or> c = CHR ''='' \<or> c = CHR ''!'')
      \<and> scan_pattern Expect_term depth cs)"
| "scan_pattern st depth (c # cs) =
     (if c = backslash then scan_pattern In_escape depth cs
      else if c = CHR ''('' then scan_pattern After_paren (Suc depth) cs
      else if c = CHR '')'' then 0 < depth \<and> scan_pattern After_atom (depth - 1) cs
      else if c = CHR ''['' then scan_pattern In_bracket depth cs
      else if c = CHR ''|'' \<or> c = CHR ''^'' \<or> c = CHR ''$''
        then scan_pattern Expect_term depth cs
      else if c = CHR ''?'' \<and> st = After_paren
        then scan_pattern After_paren_question depth cs
      else if c = CHR ''*'' \<or> c = CHR ''+'' \<or> c = CHR ''?''
        then st = After_atom \<and> scan_pattern After_atom depth cs
      else if c = CHR ''{'' then st = After_atom \<and> scan_pattern Brace_open depth cs
      else scan_pattern After_atom depth cs)"

text \<open>
  The constructor of \<^verbatim>\<open>std::regex\<close>: the built object is held as its pattern.
\<close>

definition std_regex :: "string \<Rightarrow> failure + string" where
  "std_regex pattern =
     (if scan_pattern Expect_term 0 pattern then Inr pattern else Inl Regex_error)"

definition rgx_pattern :: string where
  "rgx_pattern =
     ''{(-?'' @ [backslash] @ ''d+'' @ [backslash] @ ''.'' @ [backslash] @ ''d+)''
       @ [backslash] @ ''/''"

definition rgx2_pattern :: string where
  "rgx2_pattern = ''{#(-?'' @ [backslash] @ ''d+)'' @ [backslash] @ ''/''"

text \<open>
  \<^verbatim>\<open>extract_fishtest_comment_score\<close>: \<open>Inr (Some Q)\<close> is \<^verbatim>\<open>true\<close> with the
  score stored in \<^verbatim>\<open>Q\<close>, \<open>Inr None\<close> is \<^verbatim>\<open>false\<close>. The two static patterns
  are built when control first passes their declarations, before anything is searched; a
  construction that throws is tried again at the next call. What the standard library
  does with a built pattern is a parameter: \<open>regex_search\<close> is
  \<^verbatim>\<open>std::regex_search\<close> (for a built pattern and a string, \<open>None\<close> when nothing
  matches, else the sub-matches by index) and \<open>stof\<close> is \<^verbatim>\<open>std::stof\<close>.
  \<^verbatim>\<open>at(0)\<close> throws \<^verbatim>\<open>std::out_of_range\<close> on an empty string.
\<close>

definition extract_fishtest_comment_score ::
  "(string \<Rightarrow> string \<Rightarrow> (nat \<Rightarrow> string) option) \<Rightarrow> (string \<Rightarrow> failure + real)
     \<Rightarrow> string \<Rightarrow> failure + real option" where
  "extract_fishtest_comment_score regex_search stof comment =
     (case std_regex rgx_pattern of
        Inl e \<Rightarrow> Inl e
      | Inr rgx \<Rightarrow>
          (case std_regex rgx2_pattern of
             Inl e \<Rightarrow> Inl e
           | Inr rgx2 \<Rightarrow>
               (case regex_search rgx comment of
                  Some matches \<Rightarrow>
                    (case stof (matches 1) of Inl e \<Rightarrow> Inl e | Inr Q \<Rightarrow> Inr (Some Q))
                | None \<Rightarrow>
                    (case regex_search rgx2 comment of
                       Some matches \<Rightarrow>
                         (case matches 1 of
                            [] \<Rightarrow> Inl Out_of_range
                          | c # rest \<Rightarrow>
                              Inr (Some (if c = CHR ''-'' then - 128 else 128)))
                     | None \<Rightarrow> Inr None))))"

definition convert_sf_score_to_win_probability :: "real \<Rightarrow> real" where
  "convert_sf_score_to_win_probability score = 2 / (1 + exp (- 0.4 * score)) - 1"

subsection \<open>From a polyglot move to an lc0 move\<close>

text \<open>
  Modelled from the spec: polyglot's \<^verbatim>\<open>move_t\<close> and its accessors are not among the
  sources. The record holds what they return for a move: the rank and file of
  \<^verbatim>\<open>move_from(move)\<close> and \<^verbatim>\<open>move_to(move)\<close>, \<^verbatim>\<open>move_is_promote(move)\<close> and
  the promotion code \<^verbatim>\<open>move >> 12\<close>.
\<close>

record move_t =
  from_rank :: nat
  from_file :: nat
  to_rank :: nat
  to_file :: nat
  move_is_promote :: bool
  promote_code :: nat

definition lookup :: "Promotion list" where
  "lookup = [NoPromotion, Knight, Bishop, Rook, Queen]"

text \<open>
  \<^verbatim>\<open>poly_move_to_lc0_move\<close>. The two answers of the board are arguments:
  \<open>is_castle\<close> is \<^verbatim>\<open>move_is_castle(move, board)\<close> and \<open>black\<close> is
  \<^verbatim>\<open>colour_is_black(board->turn)\<close>.
\<close>

definition poly_move_to_lc0_move :: "move_t \<Rightarrow> bool \<Rightarrow> bool \<Rightarrow> failure + Move" where
  "poly_move_to_lc0_move move is_castle black =
     (let m = Move_of (BoardSquare (from_rank move) (from_file move))
                      (BoardSquare (to_rank move) (to_file move));
          translated =
            (if move_is_promote move then
               (if promote_code move < length lookup
                then Inr (SetPromotion (lookup ! promote_code move) m)
                else Inl Index_out_of_bounds)
             else if is_castle then
               (let is_short_castle = from_file move < to_file move;
                    file_to = (if is_short_castle then 6 else 2)
                in Inr (SetCastling (SetTo (BoardSquare (to_rank move) file_to) m)))
             else Inr m)
      in case translated of
           Inl e \<Rightarrow> Inl e
         | Inr m' \<Rightarrow> Inr (if black then Mirror m' else m'))"

subsection \<open>One game\<close>

record Options =
  verbose :: bool
  fishtest_mode :: bool

text \<open>
  One turn of the move loop of \<^verbatim>\<open>write_one_game_training_data\<close> reads a move from
  the PGN and asks the two boards about it. A \<open>pgn_move\<close> holds the token
  (\<^verbatim>\<open>str\<close>, \<^verbatim>\<open>pgn->last_read_nag\<close>, \<^verbatim>\<open>pgn->last_read_comment\<close>) and what the
  libraries answer at the position the game has reached: \<^verbatim>\<open>move_from_san\<close>
  (\<open>None\<close> is \<^verbatim>\<open>MoveNone\<close>), \<^verbatim>\<open>move_is_legal\<close>, \<^verbatim>\<open>move_is_mate\<close>,
  \<^verbatim>\<open>move_is_castle\<close>, \<^verbatim>\<open>colour_is_black(board->turn)\<close>, the position history before
  the move, and \<^verbatim>\<open>GenerateLegalMoves()\<close> of its last position. It also holds the
  two functions of the standard library that \<^verbatim>\<open>extract_fishtest_comment_score\<close>
  calls on the comment once its patterns are built, \<^verbatim>\<open>std::regex_search\<close> and
  \<^verbatim>\<open>std::stof\<close>.
\<close>

record pgn_move =
  str :: string
  last_read_nag :: string
  last_read_comment :: string
  move_from_san :: "move_t option"
  move_is_legal :: bool
  move_is_mate :: bool
  move_is_castle :: bool
  turn_is_black :: bool
  position_history :: PositionHistory
  GenerateLegalMoves :: "Move list"
  std_regex_search :: "string \<Rightarrow> string \<Rightarrow> (nat \<Rightarrow> string) option"
  std_stof :: "string \<Rightarrow> failure + real"

record pgn_t =
  pgn_result :: string
  pgn_moves :: "pgn_move list"

text \<open>
  The writer of one game: the game id and the directory it was opened with (the directory
  is named \<^verbatim>\<open>supervised-\<close> followed by the number \<open>directory\<close>), the chunks written
  so far and whether \<^verbatim>\<open>Finalize\<close> was called.
\<close>

record TrainingDataWriter =
  writer_game_id :: nat
  directory :: nat
  chunks :: "V4TrainingData list"
  finalized :: bool

text \<open>
  The lines the code prints whether or not it is verbose: the illegal move and the move
  that is not found, the latter with the game id and \<^verbatim>\<open>square_file(move_to(move))\<close>.
\<close>

datatype diagnostic = Illegal_move string | Move_not_found string nat nat

record game_state =
  writer :: "TrainingDataWriter option"
  game_id :: nat
  cout :: "diagnostic list"

datatype loop = Continue game_state | Break game_state

definition bad_move_of :: "string \<Rightarrow> bool" where
  "bad_move_of nag =
     (case nag of
        [] \<Rightarrow> False
      | c # rest \<Rightarrow> c = CHR ''2'' \<or> c = CHR ''4'' \<or> c = CHR ''5'' \<or> c = CHR ''6'')"

text \<open>
  The value given to \<^verbatim>\<open>fishtest_score\<close> for a move that has a comment: \<open>Inr None\<close>
  when the comment has no score.
\<close>

definition fishtest_score :: "pgn_move \<Rightarrow> failure + real option" where
  "fishtest_score t =
     (if move_is_mate t then
        Inr (Some (if IsBlackToMove (Last (position_history t)) then - 128 else 128))
      else extract_fishtest_comment_score (std_regex_search t) (std_stof t)
             (last_read_comment t))"

datatype evaluation = Evaluation real | No_score | No_comment

definition move_evaluation :: "pgn_move \<Rightarrow> failure + evaluation" where
  "move_evaluation t =
     (if last_read_comment t \<noteq> [] then
        (case fishtest_score t of
           Inl e \<Rightarrow> Inl e
         | Inr None \<Rightarrow> Inr No_score
         | Inr (Some score) \<Rightarrow> Inr (Evaluation score))
      else Inr No_comment)"

text \<open>The writer is created when there is none; the local game id is then incremented.\<close>

definition init_writer :: "nat \<Rightarrow> game_state \<Rightarrow> failure + game_state" where
  "init_writer max_games_per_directory st =
     (case writer st of
        Some w \<Rightarrow> Inr st
      | None \<Rightarrow>
          if max_games_per_directory = 0 then Inl Division_by_zero
          else Inr (st\<lparr>writer :=
                         Some \<lparr>writer_game_id = game_id st,
                               directory = game_id st div max_games_per_directory,
                               chunks = [], finalized = False\<rparr>,
                       game_id := game_id st + 1\<rparr>))"

text \<open>
  Modelled from the spec: \<^verbatim>\<open>operator==\<close> of \<^verbatim>\<open>lczero::Move\<close> is not among the
  sources. Two moves are equal when their squares are (and their promotion pieces, which
  are part of the move); the castling flag is compared by the code itself.
\<close>

definition Move_eq :: "Move \<Rightarrow> Move \<Rightarrow> bool" where
  "Move_eq a b = (from_sq a = from_sq b \<and> to_sq a = to_sq b \<and> promotion a = promotion b)"

definition move_found :: "Move list \<Rightarrow> Move \<Rightarrow> bool" where
  "move_found legal_moves lc0_move =
     list_ex (\<lambda>legal. Move_eq legal lc0_move \<and> castling legal = castling lc0_move) legal_moves"

text \<open>The rest of a turn, from the translation of the move to the written chunk.\<close>

definition emit_move ::
  "(Move \<Rightarrow> nat) \<Rightarrow> GameResult \<Rightarrow> pgn_move \<Rightarrow> move_t \<Rightarrow> real \<Rightarrow> game_state
     \<Rightarrow> failure + game_state" where
  "emit_move as_nn_index game_result t move Q st =
     (case poly_move_to_lc0_move move (move_is_castle t) (turn_is_black t) of
        Inl e \<Rightarrow> Inl e
      | Inr lc0_move \<Rightarrow>
          (let legal_moves = GenerateLegalMoves t;
               st1 = (if move_found legal_moves lc0_move then st
                      else st\<lparr>cout := cout st @ [Move_not_found (str t) (game_id st) (to_file move)]\<rparr>)
           in if bad_move_of (last_read_nag t) then Inr st1
              else
                (case get_v4_training_data as_nn_index game_result (position_history t)
                        lc0_move legal_moves Q of
                   Inl e \<Rightarrow> Inl e
                 | Inr chunk \<Rightarrow>
                     (case writer st1 of
                        None \<Rightarrow> Inl Null_writer
                      | Some w \<Rightarrow> Inr (st1\<lparr>writer := Some (w\<lparr>chunks := chunks w @ [chunk]\<rparr>)\<rparr>)))))"

definition process_move ::
  "(Move \<Rightarrow> nat) \<Rightarrow> nat \<Rightarrow> Options \<Rightarrow> GameResult \<Rightarrow> pgn_move \<Rightarrow> game_state
     \<Rightarrow> failure + loop" where
  "process_move as_nn_index max_games_per_directory options game_result t st =
     (case move_from_san t of
        None \<Rightarrow> Inr (Break (st\<lparr>cout := cout st @ [Illegal_move (str t)]\<rparr>))
      | Some move \<Rightarrow>
          if \<not> move_is_legal t then Inr (Break (st\<lparr>cout := cout st @ [Illegal_move (str t)]\<rparr>))
          else
            (case move_evaluation t of
               Inl e \<Rightarrow> Inl e
             | Inr No_score \<Rightarrow> Inr (Break st)
             | Inr (Evaluation score) \<Rightarrow>
                 (case init_writer max_games_per_directory st of
                    Inl e \<Rightarrow> Inl e
                  | Inr st1 \<Rightarrow>
                      (case emit_move as_nn_index game_result t move
                              (convert_sf_score_to_win_probability score) st1 of
                         Inl e \<Rightarrow> Inl e
                       | Inr st2 \<Rightarrow> Inr (Continue st2)))
             | Inr No_comment \<Rightarrow>
                 if fishtest_mode options then Inr (Break st)
                 else
                   (case emit_move as_nn_index game_result t move 0 st of
                      Inl e \<Rightarrow> Inl e
                    | Inr st2 \<Rightarrow> Inr (Continue st2))))"

fun process_moves ::
  "(Move \<Rightarrow> nat) \<Rightarrow> nat \<Rightarrow> Options \<Rightarrow> GameResult \<Rightarrow> pgn_move list \<Rightarrow> game_state
     \<Rightarrow> failure + game_state" where
  "process_moves as_nn_index max_dir options game_result [] st = Inr st"
| "process_moves as_nn_index max_dir options game_result (t # ts) st =
     (case process_move as_nn_index max_dir options game_result t st of
        Inl e \<Rightarrow> Inl e
      | Inr (Break st') \<Rightarrow> Inr st'
      | Inr (Continue st') \<Rightarrow> process_moves as_nn_index max_dir options game_result ts st')"

definition game_result_of :: "string \<Rightarrow> GameResult" where
  "game_result_of r =
     (if r = ''1-0'' then WHITE_WON else if r = ''0-1'' then BLACK_WON else DRAW)"

text \<open>
  \<^verbatim>\<open>write_one_game_training_data\<close> returns whether a writer was created; the model
  also returns the final state, with the finalized writer.
\<close>

definition write_one_game_training_data ::
  "(Move \<Rightarrow> nat) \<Rightarrow> nat \<Rightarrow> pgn_t \<Rightarrow> nat \<Rightarrow> Options \<Rightarrow> failure + bool \<times> game_state" where
  "write_one_game_training_data as_nn_index max_games_per_directory pgn gid options =
     (case process_moves as_nn_index max_games_per_directory options
             (game_result_of (pgn_result pgn)) (pgn_moves pgn)
             \<lparr>writer = None, game_id = gid, cout = []\<rparr> of
        Inl e \<Rightarrow> Inl e
      | Inr st \<Rightarrow>
          (let st' = st\<lparr>writer := map_option (\<lambda>w. w\<lparr>finalized := True\<rparr>) (writer st)\<rparr>
           in Inr (writer st' \<noteq> None, st')))"

subsection \<open>All games\<close>

text \<open>
  The loop of \<^verbatim>\<open>main\<close> over the games of one file, and over the files. The state is
  the global game id and the writers finalized so far, in order. The game id is an
  \<^verbatim>\<open>int\<close> that counts up from 0 and is a \<open>nat\<close> here (the loop stops at
  \<^verbatim>\<open>max_games_to_convert\<close>, ten million unless the command line says otherwise); its
  division by the \<^verbatim>\<open>size_t\<close> \<^verbatim>\<open>max_games_per_directory\<close> is then the division of
  natural numbers.
\<close>

fun convert_games ::
  "(Move \<Rightarrow> nat) \<Rightarrow> nat \<Rightarrow> nat \<Rightarrow> Options \<Rightarrow> pgn_t list \<Rightarrow> nat \<times> TrainingDataWriter list
     \<Rightarrow> failure + nat \<times> TrainingDataWriter list" where
  "convert_games as_nn_index max_dir max_games_to_convert options [] acc = Inr acc"
| "convert_games as_nn_index max_dir max_games_to_convert options (pgn # rest) (gid, out) =
     (if gid < max_games_to_convert then
        (case write_one_game_training_data as_nn_index max_dir pgn gid options of
           Inl e \<Rightarrow> Inl e
         | Inr (game_written, st) \<Rightarrow>
             convert_games as_nn_index max_dir max_games_to_convert options rest
               (if game_written then gid + 1 else gid,
                out @ (case writer st of None \<Rightarrow> [] | Some w \<Rightarrow> [w])))
      else Inr (gid, out))"

fun convert_files ::
  "(Move \<Rightarrow> nat) \<Rightarrow> nat \<Rightarrow> nat \<Rightarrow> Options \<Rightarrow> pgn_t list list \<Rightarrow> nat \<times> TrainingDataWriter list
     \<Rightarrow> failure + nat \<times> TrainingDataWriter list" where
  "convert_files as_nn_index max_dir max_games_to_convert options [] acc = Inr acc"
| "convert_files as_nn_index max_dir max_games_to_convert options (file # files) acc =
     (case convert_games as_nn_index max_dir max_games_to_convert options file acc of
        Inl e \<Rightarrow> Inl e
      | Inr acc' \<Rightarrow> convert_files as_nn_index max_dir max_games_to_convert options files acc')"

definition main ::
  "(Move \<Rightarrow> nat) \<Rightarrow> nat \<Rightarrow> nat \<Rightarrow> Options \<Rightarrow> pgn_t list list
     \<Rightarrow> failure + nat \<times> TrainingDataWriter list" where
  "main as_nn_index max_games_per_directory max_games_to_convert options files =
     convert_files as_nn_index max_games_per_directory max_games_to_convert options files (0, [])"

subsection \<open>The vocabulary of the specification\<close>

text \<open>
  The final result favours the side to move in a position, or its opponent.
\<close>

definition side_to_move_won :: "GameResult \<Rightarrow> Position \<Rightarrow> bool" where
  "side_to_move_won gr pos = (gr = (if IsBlackToMove pos then BLACK_WON else WHITE_WON))"

definition opponent_won :: "GameResult \<Rightarrow> Position \<Rightarrow> bool" where
  "opponent_won gr pos = (gr = (if IsBlackToMove pos then WHITE_WON else BLACK_WON))"

text \<open>
  A turn of the move loop reaches the translation of its move when the move is legal and
  its evaluation does not end the game: it has a comment and an evaluation, or it has no
  comment and the mode is not the fishtest mode.
\<close>

definition reaches_translation :: "Options \<Rightarrow> pgn_move \<Rightarrow> bool" where
  "reaches_translation options t =
     (move_from_san t \<noteq> None \<and> move_is_legal t \<and>
      (case move_evaluation t of
         Inr (Evaluation score) \<Rightarrow> True
       | Inr No_comment \<Rightarrow> \<not> fishtest_mode options
       | Inr No_score \<Rightarrow> False
       | Inl e \<Rightarrow> False))"

text \<open>The value of \<^verbatim>\<open>Q\<close> when the record of a move is built.\<close>

definition move_Q :: "pgn_move \<Rightarrow> real" where
  "move_Q t =
     (case move_evaluation t of
        Inr (Evaluation score) \<Rightarrow> convert_sf_score_to_win_probability score
      | Inr No_comment \<Rightarrow> 0
      | Inr No_score \<Rightarrow> 0
      | Inl e \<Rightarrow> 0)"

definition written_chunks :: "game_state \<Rightarrow> V4TrainingData list" where
  "written_chunks st = (case writer st of None \<Rightarrow> [] | Some w \<Rightarrow> chunks w)"

definition loop_state :: "loop \<Rightarrow> game_state" where
  "loop_state s = (case s of Continue st \<Rightarrow> st | Break st \<Rightarrow> st)"

definition continues :: "loop \<Rightarrow> bool" where
  "continues s = (case s of Continue st \<Rightarrow> True | Break st \<Rightarrow> False)"

text \<open>
  The writer of the game with id \<open>gid\<close>: while there is none the local game id is still
  \<open>gid\<close>; once it is there it carries \<open>gid\<close> and the directory \<open>gid div max_dir\<close>.
\<close>

definition writer_of_game :: "nat \<Rightarrow> nat \<Rightarrow> game_state \<Rightarrow> bool" where
  "writer_of_game max_dir gid st =
     (case writer st of
        None \<Rightarrow> game_id st = gid
      | Some w \<Rightarrow> writer_game_id w = gid \<and> directory w = gid div max_dir)"

subsection \<open>Example inputs\<close>

text \<open>
  A position with White to move and one with Black to move, the pawn moves e2-e4,
  d2-d4 and e7-e5, the short castlings as polyglot hands them over (the king takes its
  own rook: e1 to h1, e8 to h8), and an index into the policy vector for the examples
  (lc0's table is not among the sources): the number of the destination square.
\<close>

definition white_position :: Position where
  "white_position =
     \<lparr>IsBlackToMove = False, WE_CAN_OOO = True, WE_CAN_OO = True, THEY_CAN_OOO = True,
      THEY_CAN_OO = True, GetNoCaptureNoPawnPly = 0\<rparr>"

definition black_position :: Position where
  "black_position = white_position\<lparr>IsBlackToMove := True\<rparr>"

definition white_history :: PositionHistory where
  "white_history = \<lparr>Last = white_position, encoded_planes = replicate 104 0\<rparr>"

definition black_history :: PositionHistory where
  "black_history = \<lparr>Last = black_position, encoded_planes = replicate 104 0\<rparr>"

definition e2e4 :: move_t where
  "e2e4 = \<lparr>from_rank = 1, from_file = 4, to_rank = 3, to_file = 4,
           move_is_promote = False, promote_code = 0\<rparr>"

definition e7e5 :: move_t where
  "e7e5 = \<lparr>from_rank = 6, from_file = 4, to_rank = 4, to_file = 4,
           move_is_promote = False, promote_code = 0\<rparr>"


definition e8h8 :: move_t where
  "e8h8 = \<lparr>from_rank = 7, from_file = 4, to_rank = 7, to_file = 7,
           move_is_promote = False, promote_code = 0\<rparr>"

definition lc0_e2e4 :: Move where
  "lc0_e2e4 = Move_of 12 28"

definition lc0_d2d4 :: Move where
  "lc0_d2d4 = Move_of 11 27"

definition lc0_e1g1 :: Move where
  "lc0_e1g1 = Move_of 4 6"

definition example_index :: "Move \<Rightarrow> nat" where
  "example_index m = to_sq m"

text \<open>
  Turns of the move loop. White's first move e4 without a comment; a mating move of
  White without a comment, with a comment, with a comment and the glyph 6 (a questionable
  move), and with a comment when the legal moves do not hold the move; White's short
  castling without a comment and with the glyph 2 (a poor move), when the legal moves
  hold the king's move from e1 to g1 without the castling flag. The legal moves are cut
  down to one or two. No example reaches \<^verbatim>\<open>std::regex_search\<close> or
  \<^verbatim>\<open>std::stof\<close>: the examples let the first find nothing and the second return 0.
\<close>

definition uncommented_e4 :: pgn_move where
  "uncommented_e4 =
     \<lparr>str = ''e4'', last_read_nag = [], last_read_comment = [],
      move_from_san = Some e2e4, move_is_legal = True, move_is_mate = False,
      move_is_castle = False, turn_is_black = False, position_history = white_history,
      GenerateLegalMoves = [lc0_e2e4, lc0_d2d4],
      std_regex_search = (\<lambda>rgx s. None), std_stof = (\<lambda>s. Inr 0)\<rparr>"

definition uncommented_mate :: pgn_move where
  "uncommented_mate = uncommented_e4\<lparr>str := ''e4#'', move_is_mate := True\<rparr>"

definition commented_mate :: pgn_move where
  "commented_mate = uncommented_mate\<lparr>last_read_comment := ''{White mates}''\<rparr>"

definition filtered_mate :: pgn_move where
  "filtered_mate = commented_mate\<lparr>last_read_nag := ''6''\<rparr>"



definition non_strict :: Options where
  "non_strict = \<lparr>verbose = False, fishtest_mode = False\<rparr>"

definition new_game :: "nat \<Rightarrow> game_state" where
  "new_game gid = \<lparr>writer = None, game_id = gid, cout = []\<rparr>"

text \<open>
  The state of a game whose writer is open and empty, and two games: one move without a
  comment; one mating move that has a comment and that its glyph filters.
\<close>

definition open_writer :: game_state where
  "open_writer =
     \<lparr>writer = Some \<lparr>writer_game_id = 0, directory = 0, chunks = [], finalized = False\<rparr>,
      game_id = 1, cout = []\<rparr>"

definition uncommented_game :: pgn_t where
  "uncommented_game = \<lparr>pgn_result = ''1-0'', pgn_moves = [uncommented_e4]\<rparr>"

definition filtered_mate_game :: pgn_t where
  "filtered_mate_game = \<lparr>pgn_result = ''1-0'', pgn_moves = [filtered_mate]\<rparr>"
section \<open>The training record\<close>

subsection \<open>The probability array\<close>

lemma float_to_int_minus_one: "float_to_int (- 1) = - 1"
  by (simp add: float_to_int_def ceiling_minus)

lemma memset_float_minus_one: "memset_float (- 1) = 0xFFFFFFFF"
  by code_simp

lemma length_memset_floats: "length (memset_floats c n) = n"
  by (simp add: memset_floats_def)

lemma nth_memset_floats: "i < n \<Longrightarrow> memset_floats c n ! i = memset_float c"
  by (simp add: memset_floats_def)

lemma populate_legal_moves_Inr:
  "populate_legal_moves nn L ps = Inr qs \<Longrightarrow>
     length qs = length ps \<and> (\<forall>m \<in> set L. nn m < length ps) \<and>
     (\<forall>i < length ps. qs ! i = (if i \<in> nn ` set L then f32_zero else ps ! i))"
proof (induction L arbitrary: ps)
  case Nil
  then show ?case by simp
next
  case (Cons m L)
  from Cons.prems obtain ps' where
    step: "set_probability ps (nn m) f32_zero = Inr ps'" and
    rest: "populate_legal_moves nn L ps' = Inr qs"
    by (auto split: sum.splits)
  from step have inb: "nn m < length ps" and ps': "ps' = ps[nn m := f32_zero]"
    by (auto simp: set_probability_def split: if_splits)
  from Cons.IH [OF rest] ps' inb show ?case
    by (auto simp: nth_list_update)
qed

lemma populate_legal_moves_total:
  "\<forall>m \<in> set L. nn m < length ps \<Longrightarrow> \<exists>qs. populate_legal_moves nn L ps = Inr qs"
proof (induction L arbitrary: ps)
  case Nil
  then show ?case by simp
next
  case (Cons m L)
  then show ?case by (simp add: set_probability_def)
qed

lemma get_v4_training_data_probabilities:
  assumes "get_v4_training_data nn gr h m L Q = Inr r"
  shows "length (probabilities r) = kNumOutputPolicy"
    and "nn m < kNumOutputPolicy"
    and "\<forall>x \<in> set L. nn x < kNumOutputPolicy"
    and "\<forall>i < kNumOutputPolicy. probabilities r ! i =
           (if i = nn m then f32_one else if i \<in> nn ` set L then f32_zero else 0xFFFFFFFF)"
proof -
  let ?init = "memset_floats (float_to_int (- 1)) kNumOutputPolicy"
  from assms obtain ps0 ps where
    pop: "populate_legal_moves nn L ?init = Inr ps0" and
    played: "set_probability ps0 (nn m) f32_one = Inr ps" and
    r: "probabilities r = ps"
    by (auto simp: get_v4_training_data_def Let_def split: sum.splits)
  note P = populate_legal_moves_Inr [OF pop, unfolded length_memset_floats]
  from played have inb: "nn m < length ps0" and ps: "ps = ps0[nn m := f32_one]"
    by (auto simp: set_probability_def split: if_splits)
  show "length (probabilities r) = kNumOutputPolicy" using P r ps by simp
  show "nn m < kNumOutputPolicy" using P inb by simp
  show "\<forall>x \<in> set L. nn x < kNumOutputPolicy" using P by simp
  show "\<forall>i < kNumOutputPolicy. probabilities r ! i =
           (if i = nn m then f32_one else if i \<in> nn ` set L then f32_zero else 0xFFFFFFFF)"
    using P r ps inb
    by (auto simp: nth_list_update nth_memset_floats float_to_int_minus_one memset_float_minus_one)
qed

text \<open>The record is built whenever the indices of the moves lie inside the array.\<close>

lemma get_v4_training_data_total:
  assumes "nn m < kNumOutputPolicy" and "\<forall>x \<in> set L. nn x < kNumOutputPolicy"
  shows "\<exists>r. get_v4_training_data nn gr h m L Q = Inr r"
proof -
  let ?init = "memset_floats (float_to_int (- 1)) kNumOutputPolicy"
  from assms(2) have "\<forall>x \<in> set L. nn x < length ?init"
    by (simp add: length_memset_floats)
  from populate_legal_moves_total [OF this] obtain ps0 where
    pop: "populate_legal_moves nn L ?init = Inr ps0" ..
  from populate_legal_moves_Inr [OF pop] assms(1) have "nn m < length ps0"
    by (simp add: length_memset_floats)
  with pop show ?thesis
    by (simp add: get_v4_training_data_def set_probability_def Let_def)
qed

lemma get_v4_training_data_fields:
  assumes "get_v4_training_data nn gr h m L Q = Inr r"
  shows "result r =
           (if gr = WHITE_WON then (if IsBlackToMove (Last h) then - 1 else 1)
            else if gr = BLACK_WON then (if IsBlackToMove (Last h) then 1 else - 1) else 0)"
    and "root_d r = (if gr = DRAW then 1 else 0)"
    and "best_d r = (if gr = DRAW then 1 else 0)"
    and "root_q r = (if IsBlackToMove (Last h) then - Q else Q)"
    and "best_q r = (if IsBlackToMove (Last h) then - Q else Q)"
  using assms
  by (cases gr; auto simp: get_v4_training_data_def Let_def split: sum.splits)+

text \<open>
  What the array does hold: the bit pattern of 1.0 at the index of the played move and
  that of 0.0 at the index of every other legal move.
\<close>

lemma played_and_legal_probabilities:
  assumes "get_v4_training_data nn gr h m L Q = Inr r"
  shows "probabilities r ! nn m = f32_one"
    and "\<forall>x \<in> set L. nn x \<noteq> nn m \<longrightarrow> probabilities r ! nn x = f32_zero"
  using get_v4_training_data_probabilities [OF assms] by auto

lemma example_record_exists:
  "\<exists>r. get_v4_training_data example_index gr h lc0_e2e4 [lc0_e2e4, lc0_d2d4] Q = Inr r"
  by (rule get_v4_training_data_total)
     (simp_all add: example_index_def lc0_e2e4_def lc0_d2d4_def Move_of_def kNumOutputPolicy_def)

text \<open>
  C1. The array is first filled by \<^verbatim>\<open>memset\<close> with the byte that the value -1.0
  converts to, so every entry that belongs neither to the played move nor to a legal move
  holds the bit pattern \<open>0xFFFFFFFF\<close> (a NaN), not the bit pattern of -1.0.
\<close>

theorem illegal_move_probability_is_not_minus_one:
  assumes "get_v4_training_data nn gr h m L Q = Inr r"
    and "i < kNumOutputPolicy" and "i \<noteq> nn m" and "i \<notin> nn ` set L"
  shows "probabilities r ! i = 0xFFFFFFFF \<and> probabilities r ! i \<noteq> f32_minus_one"
  using get_v4_training_data_probabilities(4) [OF assms(1)] assms(2-4)
  by (simp add: f32_minus_one_def)

theorem illegal_move_probability_witness:
  "probabilities (projr (get_v4_training_data example_index DRAW white_history lc0_e2e4
       [lc0_e2e4, lc0_d2d4] 0)) ! 0 = 0xFFFFFFFF \<and>
   probabilities (projr (get_v4_training_data example_index DRAW white_history lc0_e2e4
       [lc0_e2e4, lc0_d2d4] 0)) ! 0 \<noteq> f32_minus_one"
proof -
  obtain r where r: "get_v4_training_data example_index DRAW white_history lc0_e2e4
       [lc0_e2e4, lc0_d2d4] 0 = Inr r"
    using example_record_exists by blast
  have h: "probabilities r ! 0 = 0xFFFFFFFF \<and> probabilities r ! 0 \<noteq> f32_minus_one"
    by (rule illegal_move_probability_is_not_minus_one [OF r])
       (simp_all add: example_index_def lc0_e2e4_def lc0_d2d4_def Move_of_def kNumOutputPolicy_def)
  show ?thesis unfolding r sum.sel by (rule h)
qed

text \<open>
  C8. In every record that is built, the result label is 1 when the final result favours
  the side to move of the stored position, -1 when it favours the opponent and 0 for a
  draw; the draw scalars \<open>root_d\<close> and \<open>best_d\<close> are 0 for a decisive result and 1 for
  a draw.
\<close>

theorem game_result_label:
  assumes "get_v4_training_data nn gr h m L Q = Inr r"
  shows "(side_to_move_won gr (Last h) \<longrightarrow> result r = 1 \<and> root_d r = 0 \<and> best_d r = 0) \<and>
         (opponent_won gr (Last h) \<longrightarrow> result r = - 1 \<and> root_d r = 0 \<and> best_d r = 0) \<and>
         (gr = DRAW \<longrightarrow> result r = 0 \<and> root_d r = 1 \<and> best_d r = 1)"
  using get_v4_training_data_fields(1-3) [OF assms]
  by (cases gr) (auto simp: side_to_move_won_def opponent_won_def)

theorem game_result_label_witness:
  "result (projr (get_v4_training_data example_index DRAW white_history lc0_e2e4
       [lc0_e2e4, lc0_d2d4] 0)) = 0 \<and>
   root_d (projr (get_v4_training_data example_index DRAW white_history lc0_e2e4
       [lc0_e2e4, lc0_d2d4] 0)) = 1 \<and>
   result (projr (get_v4_training_data example_index WHITE_WON white_history lc0_e2e4
       [lc0_e2e4, lc0_d2d4] 0)) = 1 \<and>
   root_d (projr (get_v4_training_data example_index WHITE_WON white_history lc0_e2e4
       [lc0_e2e4, lc0_d2d4] 0)) = 0 \<and>
   result (projr (get_v4_training_data example_index WHITE_WON black_history lc0_e2e4
       [lc0_e2e4, lc0_d2d4] 0)) = - 1"
proof -
  obtain r1 where r1: "get_v4_training_data example_index DRAW white_history lc0_e2e4
       [lc0_e2e4, lc0_d2d4] 0 = Inr r1"
    using example_record_exists by blast
  obtain r2 where r2: "get_v4_training_data example_index WHITE_WON white_history lc0_e2e4
       [lc0_e2e4, lc0_d2d4] 0 = Inr r2"
    using example_record_exists by blast
  obtain r3 where r3: "get_v4_training_data example_index WHITE_WON black_history lc0_e2e4
       [lc0_e2e4, lc0_d2d4] 0 = Inr r3"
    using example_record_exists by blast
  have "result r1 = 0 \<and> root_d r1 = 1"
    using game_result_label [OF r1] by simp
  moreover have "result r2 = 1 \<and> root_d r2 = 0"
    using game_result_label [OF r2]
    by (simp add: side_to_move_won_def white_history_def white_position_def)
  moreover have "result r3 = - 1"
    using game_result_label [OF r3]
    by (simp add: opponent_won_def black_history_def black_position_def white_position_def)
  ultimately show ?thesis by (simp add: r1 r2 r3)
qed

section \<open>The move translation\<close>

lemma Mirror_Mirror: "Mirror (Mirror m) = m"
  by (simp add: Mirror_def xor.assoc)

lemma poly_move_to_lc0_move_squares:
  assumes "poly_move_to_lc0_move move is_castle black = Inr m"
  shows "from_sq (if black then Mirror m else m) = BoardSquare (from_rank move) (from_file move)"
    and "to_sq (if black then Mirror m else m) =
           (if \<not> move_is_promote move \<and> is_castle
            then BoardSquare (to_rank move) (if from_file move < to_file move then 6 else 2)
            else BoardSquare (to_rank move) (to_file move))"
  using assms
  by (auto simp: poly_move_to_lc0_move_def Let_def Mirror_def Move_of_def SetTo_def
        SetPromotion_def SetCastling_def xor.assoc split: if_splits)

text \<open>
  C9, as amended. For a move of Black, mirroring the translated move back gives the
  original from-square. It gives the original to-square unless the move is translated as
  castling (it is not a promotion and the board classifies it as castling): then the
  to-square comes back on its own rank with file 6 (short) or 2 (long).
\<close>

theorem mirror_round_trip:
  assumes "poly_move_to_lc0_move move is_castle True = Inr m"
  shows "from_sq (Mirror m) = BoardSquare (from_rank move) (from_file move) \<and>
         to_sq (Mirror m) =
           (if \<not> move_is_promote move \<and> is_castle
            then BoardSquare (to_rank move) (if from_file move < to_file move then 6 else 2)
            else BoardSquare (to_rank move) (to_file move))"
  using poly_move_to_lc0_move_squares [OF assms] by simp

theorem mirror_round_trip_witness:
  "from_sq (Mirror (projr (poly_move_to_lc0_move e7e5 False True))) = BoardSquare 6 4 \<and>
   to_sq (Mirror (projr (poly_move_to_lc0_move e7e5 False True))) = BoardSquare 4 4"
proof -
  have r: "poly_move_to_lc0_move e7e5 False True = Inr (Mirror (Move_of 52 36))"
    by (simp add: poly_move_to_lc0_move_def e7e5_def BoardSquare_def Let_def)
  show ?thesis
    using mirror_round_trip [OF r] unfolding r sum.sel by (simp add: e7e5_def)
qed

text \<open>
  C9 as stated fails for castling. Black castles short, king e8 onto its rook h8 (square
  63): the translation is the castling move e1-g1, and mirrored back it is e8-g8, with
  to-square 62.
\<close>

theorem black_castling_round_trip_counterexample:
  "poly_move_to_lc0_move e8h8 True True =
     Inr \<lparr>from_sq = 4, to_sq = 6, promotion = NoPromotion, castling = True\<rparr> \<and>
   Mirror \<lparr>from_sq = 4, to_sq = 6, promotion = NoPromotion, castling = True\<rparr> =
     \<lparr>from_sq = 60, to_sq = 62, promotion = NoPromotion, castling = True\<rparr> \<and>
   BoardSquare (to_rank e8h8) (to_file e8h8) = 63"
  by (simp add: poly_move_to_lc0_move_def e8h8_def BoardSquare_def Let_def Mirror_def Move_of_def
        SetTo_def SetCastling_def)

section \<open>The score in a comment\<close>

text \<open>
  Both patterns open with a brace that is not escaped. A brace opens the count of a
  quantifier, and at the start of a pattern there is no atom for it to count: the
  constructor refuses both patterns. With the brace escaped both are accepted.
\<close>

lemma rgx_pattern_is_refused: "std_regex rgx_pattern = Inl Regex_error"
  by (simp add: std_regex_def rgx_pattern_def backslash_def)

lemma rgx2_pattern_is_refused: "std_regex rgx2_pattern = Inl Regex_error"
  by (simp add: std_regex_def rgx2_pattern_def backslash_def)

lemma escaped_rgx_pattern_is_accepted:
  "std_regex (backslash # rgx_pattern) = Inr (backslash # rgx_pattern)"
  by (simp add: std_regex_def rgx_pattern_def backslash_def is_digit_def)

lemma escaped_rgx2_pattern_is_accepted:
  "std_regex (backslash # rgx2_pattern) = Inr (backslash # rgx2_pattern)"
  by (simp add: std_regex_def rgx2_pattern_def backslash_def is_digit_def)

text \<open>
  C5. Whatever the comment is, and whatever \<^verbatim>\<open>std::regex_search\<close> and
  \<^verbatim>\<open>std::stof\<close> would answer, \<^verbatim>\<open>extract_fishtest_comment_score\<close> neither returns
  an evaluation nor reports that there is none: building its first pattern throws
  \<^verbatim>\<open>std::regex_error\<close>.
\<close>

theorem extract_fishtest_comment_score_throws:
  "extract_fishtest_comment_score regex_search stof comment = Inl Regex_error"
  by (simp add: extract_fishtest_comment_score_def rgx_pattern_is_refused)

section \<open>The outcome of a score over the reals\<close>

text \<open>
  \<open>convert_sf_score_to_win_probability\<close> is the formula of the code with real numbers in
  place of \<^verbatim>\<open>float\<close> and \<^verbatim>\<open>double\<close>. Over the reals its value lies strictly between -1
  and 1, it is 0 at 0 and it is odd. The code computes in binary floating point, where
  these are statements about rounding, which the model does not have: for the score 128
  of a mate, \<open>exp (- 51.2)\<close> is below half the distance from 1 to the next
  \<^verbatim>\<open>double\<close>, the sum \<^verbatim>\<open>1 + exp(-0.4 * score)\<close> is 1 and the code returns exactly 1.
\<close>


lemma two_over_bounds:
  fixes a :: real
  assumes "0 < a"
  shows "0 < 2 / (1 + a)" and "2 / (1 + a) < 2"
proof -
  from assms have p: "0 < 1 + a" by simp
  then show "0 < 2 / (1 + a)" by simp
  from assms p show "2 / (1 + a) < 2" by (simp add: divide_less_eq)
qed

lemma two_over_symmetry:
  fixes a :: real
  assumes "0 < a"
  shows "2 / (1 + 1 / a) - 1 = - (2 / (1 + a) - 1)"
proof -
  from assms have p: "1 + a \<noteq> 0" and q: "a \<noteq> 0" by simp_all
  have "2 / (1 + 1 / a) = 2 * a / (1 + a)"
    using q p by (simp add: field_simps)
  moreover have "2 * a / (1 + a) + 2 / (1 + a) = 2"
    using p by (simp add: add_divide_distrib [symmetric] field_simps)
  ultimately show ?thesis by simp
qed

lemma convert_sf_score_real_bounds:
  "- 1 < convert_sf_score_to_win_probability x \<and> convert_sf_score_to_win_probability x < 1"
  using two_over_bounds [of "exp (- 0.4 * x)"]
  by (simp add: convert_sf_score_to_win_probability_def)

lemma convert_sf_score_real_zero: "convert_sf_score_to_win_probability 0 = 0"
  by (simp add: convert_sf_score_to_win_probability_def)

lemma convert_sf_score_real_odd:
  "convert_sf_score_to_win_probability (- x) = - convert_sf_score_to_win_probability x"
proof -
  have inv: "exp (- 0.4 * - x) = 1 / exp (- 0.4 * x)"
    using exp_minus [of "- 0.4 * x"] by (simp add: field_simps)
  show ?thesis
    unfolding convert_sf_score_to_win_probability_def inv
    by (rule two_over_symmetry) simp
qed

section \<open>The move loop\<close>

subsection \<open>One turn\<close>


lemma emit_move_eq:
  assumes "poly_move_to_lc0_move move (move_is_castle t) (turn_is_black t) = Inr lc0"
  shows "emit_move nn gr t move Q st =
     (if bad_move_of (last_read_nag t) then
        Inr (if move_found (GenerateLegalMoves t) lc0 then st
             else st\<lparr>cout := cout st @ [Move_not_found (str t) (game_id st) (to_file move)]\<rparr>)
      else
        (case get_v4_training_data nn gr (position_history t) lc0 (GenerateLegalMoves t) Q of
           Inl e \<Rightarrow> Inl e
         | Inr chunk \<Rightarrow>
             (case writer st of
                None \<Rightarrow> Inl Null_writer
              | Some w \<Rightarrow>
                  Inr ((if move_found (GenerateLegalMoves t) lc0 then st
                        else st\<lparr>cout := cout st @
                               [Move_not_found (str t) (game_id st) (to_file move)]\<rparr>)
                       \<lparr>writer := Some (w\<lparr>chunks := chunks w @ [chunk]\<rparr>)\<rparr>))))"
  using assms by (simp add: emit_move_def Let_def split: sum.splits option.splits)

lemma emit_move_Inl:
  assumes "poly_move_to_lc0_move move (move_is_castle t) (turn_is_black t) = Inl e"
  shows "emit_move nn gr t move Q st = Inl e"
  using assms by (simp add: emit_move_def)

lemma emit_move_Inr:
  assumes "emit_move nn gr t move Q st = Inr st'"
  shows "\<exists>lc0. poly_move_to_lc0_move move (move_is_castle t) (turn_is_black t) = Inr lc0 \<and>
           game_id st' = game_id st \<and>
           cout st' = cout st @
             (if move_found (GenerateLegalMoves t) lc0 then []
              else [Move_not_found (str t) (game_id st) (to_file move)]) \<and>
           (if bad_move_of (last_read_nag t) then writer st' = writer st
            else \<exists>chunk w.
                   get_v4_training_data nn gr (position_history t) lc0 (GenerateLegalMoves t) Q
                     = Inr chunk \<and>
                   writer st = Some w \<and> writer st' = Some (w\<lparr>chunks := chunks w @ [chunk]\<rparr>))"
proof (cases "poly_move_to_lc0_move move (move_is_castle t) (turn_is_black t)")
  case (Inl e)
  from emit_move_Inl [OF Inl] assms show ?thesis by simp
next
  case (Inr lc0)
  note eq = emit_move_eq [OF Inr, of nn gr Q st]
  show ?thesis
  proof (cases "bad_move_of (last_read_nag t)")
    case True
    with eq assms Inr show ?thesis by (cases "move_found (GenerateLegalMoves t) lc0") auto
  next
    case False
    show ?thesis
    proof (cases "get_v4_training_data nn gr (position_history t) lc0 (GenerateLegalMoves t) Q")
      case (Inl e)
      with eq False assms show ?thesis by simp
    next
      case chunk: (Inr chunk)
      show ?thesis
      proof (cases "writer st")
        case None
        with eq False chunk assms show ?thesis by simp
      next
        case (Some w)
        with eq False chunk assms Inr show ?thesis
          by (cases "move_found (GenerateLegalMoves t) lc0") auto
      qed
    qed
  qed
qed

lemma init_writer_Inr:
  assumes "init_writer max_dir st = Inr st1"
  shows "cout st1 = cout st \<and> written_chunks st1 = written_chunks st \<and>
         (case writer st of
            Some w \<Rightarrow> st1 = st
          | None \<Rightarrow> 0 < max_dir \<and> game_id st1 = game_id st + 1 \<and>
              writer st1 = Some \<lparr>writer_game_id = game_id st,
                                 directory = game_id st div max_dir,
                                 chunks = [], finalized = False\<rparr>)"
  using assms
  by (auto simp: init_writer_def written_chunks_def split: option.splits if_splits)

lemma process_move_illegal:
  assumes "move_from_san t = None \<or> \<not> move_is_legal t"
  shows "process_move nn max_dir options gr t st =
           Inr (Break (st\<lparr>cout := cout st @ [Illegal_move (str t)]\<rparr>))"
  using assms by (auto simp: process_move_def split: option.splits)

lemma move_evaluation_No_comment:
  "move_evaluation t = Inr No_comment \<longleftrightarrow> last_read_comment t = []"
  by (auto simp: move_evaluation_def split: sum.splits option.splits)

lemma process_move_legal:
  assumes "move_from_san t = Some move" and "move_is_legal t"
  shows "process_move nn max_dir options gr t st =
           (case move_evaluation t of
               Inl e \<Rightarrow> Inl e
             | Inr No_score \<Rightarrow> Inr (Break st)
             | Inr (Evaluation score) \<Rightarrow>
                 (case init_writer max_dir st of
                    Inl e \<Rightarrow> Inl e
                  | Inr st1 \<Rightarrow>
                      (case emit_move nn gr t move
                              (convert_sf_score_to_win_probability score) st1 of
                         Inl e \<Rightarrow> Inl e
                       | Inr st2 \<Rightarrow> Inr (Continue st2)))
             | Inr No_comment \<Rightarrow>
                 if fishtest_mode options then Inr (Break st)
                 else
                   (case emit_move nn gr t move 0 st of
                      Inl e \<Rightarrow> Inl e
                    | Inr st2 \<Rightarrow> Inr (Continue st2)))"
  using assms by (simp add: process_move_def)

lemma process_move_stops:
  assumes "process_move nn max_dir options gr t st = Inr s"
    and "\<not> reaches_translation options t"
  shows "\<not> continues s \<and> writer (loop_state s) = writer st \<and> game_id (loop_state s) = game_id st"
proof (cases "move_from_san t = None \<or> \<not> move_is_legal t")
  case True
  have "s = Break (st\<lparr>cout := cout st @ [Illegal_move (str t)]\<rparr>)"
    using assms(1) process_move_illegal [OF True, of nn max_dir options gr st] by simp
  then show ?thesis
    by (simp add: continues_def loop_state_def)
next
  case False
  then obtain move where mv: "move_from_san t = Some move" and legal: "move_is_legal t"
    by auto
  note pm = process_move_legal [OF mv legal, of nn max_dir options gr st]
  have "s = Break st"
  proof (cases "move_evaluation t")
    case (Inl e)
    then have "process_move nn max_dir options gr t st = Inl e"
      by (simp add: pm)
    with assms(1) show ?thesis by simp
  next
    case (Inr ev)
    show ?thesis
    proof (cases ev)
      case (Evaluation score)
      then have "reaches_translation options t"
        using Inr mv legal by (simp add: reaches_translation_def)
      with assms(2) show ?thesis by simp
    next
      case No_score
      then have "process_move nn max_dir options gr t st = Inr (Break st)"
        using Inr by (simp add: pm)
      with assms(1) show ?thesis by simp
    next
      case No_comment
      then have "fishtest_mode options"
        using Inr assms(2) mv legal by (simp add: reaches_translation_def)
      then have "process_move nn max_dir options gr t st = Inr (Break st)"
        using Inr No_comment by (simp add: pm)
      with assms(1) show ?thesis by simp
    qed
  qed
  then show ?thesis
    by (simp add: continues_def loop_state_def)
qed

lemma process_move_goes_on:
  assumes "process_move nn max_dir options gr t st = Inr s"
    and "reaches_translation options t"
  shows "\<exists>move st1. move_from_san t = Some move \<and> s = Continue (loop_state s) \<and>
           (if last_read_comment t = [] then st1 = st else init_writer max_dir st = Inr st1) \<and>
           emit_move nn gr t move (move_Q t) st1 = Inr (loop_state s)"
proof -
  from assms(2) obtain move where mv: "move_from_san t = Some move" and legal: "move_is_legal t"
    by (auto simp: reaches_translation_def)
  note pm = process_move_legal [OF mv legal, of nn max_dir options gr st]
  show ?thesis
  proof (cases "move_evaluation t")
    case (Inl e)
    then have "process_move nn max_dir options gr t st = Inl e"
      by (simp add: pm)
    with assms(1) show ?thesis by simp
  next
    case (Inr ev)
    show ?thesis
    proof (cases ev)
      case (Evaluation score)
      have ne: "last_read_comment t \<noteq> []"
        using Inr Evaluation move_evaluation_No_comment [of t] by auto
      have Q: "move_Q t = convert_sf_score_to_win_probability score"
        using Inr Evaluation by (simp add: move_Q_def)
      have eq: "process_move nn max_dir options gr t st =
                  (case init_writer max_dir st of
                     Inl e \<Rightarrow> Inl e
                   | Inr st1 \<Rightarrow>
                       (case emit_move nn gr t move
                               (convert_sf_score_to_win_probability score) st1 of
                          Inl e \<Rightarrow> Inl e
                        | Inr st2 \<Rightarrow> Inr (Continue st2)))"
        using Inr Evaluation by (simp add: pm)
      show ?thesis
      proof (cases "init_writer max_dir st")
        case (Inl e)
        with eq assms(1) show ?thesis by simp
      next
        case st1: (Inr st1)
        show ?thesis
        proof (cases "emit_move nn gr t move (convert_sf_score_to_win_probability score) st1")
          case (Inl e)
          with eq st1 assms(1) show ?thesis by simp
        next
          case st2: (Inr st2)
          with eq st1 assms(1) have "s = Continue st2" by simp
          with st1 st2 mv ne Q show ?thesis by (auto simp: loop_state_def)
        qed
      qed
    next
      case No_score
      with Inr assms(2) show ?thesis by (simp add: reaches_translation_def)
    next
      case No_comment
      have e: "last_read_comment t = []"
        using Inr No_comment move_evaluation_No_comment [of t] by auto
      have Q: "move_Q t = 0"
        using Inr No_comment by (simp add: move_Q_def)
      from Inr No_comment assms(2) have ns: "\<not> fishtest_mode options"
        by (simp add: reaches_translation_def)
      have eq: "process_move nn max_dir options gr t st =
                  (case emit_move nn gr t move 0 st of
                     Inl e \<Rightarrow> Inl e
                   | Inr st2 \<Rightarrow> Inr (Continue st2))"
        using Inr No_comment ns by (simp add: pm)
      show ?thesis
      proof (cases "emit_move nn gr t move 0 st")
        case (Inl e)
        with eq assms(1) show ?thesis by simp
      next
        case st2: (Inr st2)
        with eq assms(1) have "s = Continue st2" by simp
        with st2 mv e Q show ?thesis by (auto simp: loop_state_def)
      qed
    qed
  qed
qed

subsection \<open>The example turns\<close>

lemma lc0_of_e2e4: "poly_move_to_lc0_move e2e4 False False = Inr lc0_e2e4"
  by (simp add: poly_move_to_lc0_move_def e2e4_def lc0_e2e4_def BoardSquare_def Let_def)


lemma e2e4_found: "move_found [lc0_e2e4, lc0_d2d4] lc0_e2e4"
  by (simp add: move_found_def Move_eq_def)



lemma castling_flag_found: "move_found [SetCastling lc0_e1g1] (SetCastling lc0_e1g1)"
  by (simp add: move_found_def Move_eq_def)

text \<open>
  A legal move that has a comment and does not mate sends its comment to
  \<^verbatim>\<open>extract_fishtest_comment_score\<close>, and the turn ends with the exception.
\<close>

lemma move_evaluation_commented:
  assumes "last_read_comment t \<noteq> []" and "\<not> move_is_mate t"
  shows "move_evaluation t = Inl Regex_error"
  using assms
  by (simp add: move_evaluation_def fishtest_score_def extract_fishtest_comment_score_def
        rgx_pattern_is_refused)

lemma commented_move_throws:
  assumes "move_from_san t = Some move" and "move_is_legal t"
    and "last_read_comment t \<noteq> []" and "\<not> move_is_mate t"
  shows "process_move nn max_dir options gr t st = Inl Regex_error"
  by (simp add: process_move_legal [OF assms(1,2)] move_evaluation_commented [OF assms(3,4)])

subsection \<open>The writer\<close>

text \<open>
  C10. The writer is created only in the branch of a move that has a comment, but
  \<^verbatim>\<open>writer->WriteChunk\<close> is reached by every move that is not filtered. In a game
  outside the fishtest mode whose first move has no comment (and no glyph), the chunk is
  written through the null pointer.
\<close>

theorem null_writer_dereference:
  "write_one_game_training_data example_index 10000 uncommented_game 0 non_strict
     = Inl Null_writer"
proof -
  obtain chunk where chunk:
    "get_v4_training_data example_index WHITE_WON white_history lc0_e2e4 [lc0_e2e4, lc0_d2d4] 0
       = Inr chunk"
    using example_record_exists by blast
  have emit: "emit_move example_index WHITE_WON uncommented_e4 e2e4 0
                \<lparr>writer = None, game_id = 0, cout = []\<rparr> = Inl Null_writer"
    using emit_move_eq [of e2e4 uncommented_e4 lc0_e2e4 example_index WHITE_WON 0
        "\<lparr>writer = None, game_id = 0, cout = []\<rparr>"] lc0_of_e2e4 chunk
    by (simp add: uncommented_e4_def bad_move_of_def)
  have "process_move example_index 10000 non_strict WHITE_WON uncommented_e4
          \<lparr>writer = None, game_id = 0, cout = []\<rparr> = Inl Null_writer"
    using process_move_legal [of uncommented_e4 e2e4 example_index 10000 non_strict WHITE_WON
        "\<lparr>writer = None, game_id = 0, cout = []\<rparr>"] emit
    by (simp add: uncommented_e4_def move_evaluation_def non_strict_def)
  then show ?thesis
    by (simp add: write_one_game_training_data_def uncommented_game_def game_result_of_def)
qed


lemma move_evaluation_filtered_mate: "move_evaluation filtered_mate = Inr (Evaluation 128)"
  by (simp add: move_evaluation_def fishtest_score_def filtered_mate_def commented_mate_def
        uncommented_mate_def uncommented_e4_def white_history_def white_position_def)

lemma process_move_filtered_mate:
  "process_move example_index 10000 non_strict WHITE_WON filtered_mate (new_game 0) =
     Inr (Continue
       \<lparr>writer = Some \<lparr>writer_game_id = 0, directory = 0, chunks = [], finalized = False\<rparr>,
        game_id = 1, cout = []\<rparr>)"
proof -
  have init: "init_writer 10000 (new_game 0) = Inr open_writer"
    by (simp add: init_writer_def new_game_def open_writer_def)
  have emit: "emit_move example_index WHITE_WON filtered_mate e2e4
                (convert_sf_score_to_win_probability 128) open_writer = Inr open_writer"
    using emit_move_eq [of e2e4 filtered_mate lc0_e2e4 example_index WHITE_WON
        "convert_sf_score_to_win_probability 128" open_writer] lc0_of_e2e4 e2e4_found
    by (simp add: filtered_mate_def commented_mate_def uncommented_mate_def uncommented_e4_def
          bad_move_of_def)
  show ?thesis
    using process_move_legal [of filtered_mate e2e4 example_index 10000 non_strict WHITE_WON
        "new_game 0"] init emit move_evaluation_filtered_mate
    by (simp add: filtered_mate_def commented_mate_def uncommented_mate_def uncommented_e4_def
          open_writer_def)
qed

text \<open>
  C6. A game whose only move is a mating move that has a comment and a glyph that
  filters it: the writer is created, no chunk is written, the writer is finalized empty
  and the game counts as written, so the global game id advances.
\<close>

theorem filtered_game_advances_game_counter:
  "main example_index 10000 10000000 non_strict [[filtered_mate_game]] =
     Inr (1, [\<lparr>writer_game_id = 0, directory = 0, chunks = [], finalized = True\<rparr>])"
proof -
  have "write_one_game_training_data example_index 10000 filtered_mate_game 0 non_strict =
          Inr (True,
            \<lparr>writer = Some \<lparr>writer_game_id = 0, directory = 0, chunks = [], finalized = True\<rparr>,
             game_id = 1, cout = []\<rparr>)"
    using process_move_filtered_mate
    by (simp add: write_one_game_training_data_def filtered_mate_game_def game_result_of_def
          new_game_def)
  then show ?thesis
    by (simp add: main_def)
qed

subsection \<open>The evaluation of a mating move\<close>

text \<open>
  C3, as amended. A mating move that has a comment gets its evaluation without the
  comment being parsed: 128 when White is to move in the position before the move (White
  mates), -128 when Black is. A mating move that has no comment gets no evaluation.
\<close>

theorem mate_score_bypasses_comment:
  assumes "move_is_mate t"
  shows "move_evaluation t =
           (if last_read_comment t = [] then Inr No_comment
            else Inr (Evaluation
                   (if IsBlackToMove (Last (position_history t)) then - 128 else 128)))"
  using assms by (simp add: move_evaluation_def fishtest_score_def)

theorem mate_score_bypasses_comment_witness:
  "move_evaluation commented_mate = Inr (Evaluation 128) \<and>
   move_evaluation (commented_mate\<lparr>position_history := black_history\<rparr>) =
     Inr (Evaluation (- 128))"
proof -
  have m: "move_is_mate commented_mate"
    by (simp add: commented_mate_def uncommented_mate_def)
  from mate_score_bypasses_comment [OF m]
  have "move_evaluation commented_mate = Inr (Evaluation 128)"
    by (simp add: commented_mate_def uncommented_mate_def uncommented_e4_def white_history_def
          white_position_def)
  moreover
  have "move_is_mate (commented_mate\<lparr>position_history := black_history\<rparr>)"
    by (simp add: commented_mate_def uncommented_mate_def)
  from mate_score_bypasses_comment [OF this]
  have "move_evaluation (commented_mate\<lparr>position_history := black_history\<rparr>) =
          Inr (Evaluation (- 128))"
    by (simp add: commented_mate_def uncommented_mate_def uncommented_e4_def black_history_def
          black_position_def white_position_def)
  ultimately show ?thesis by simp
qed

text \<open>
  C3 as stated fails twice. A mating move without a comment gets no evaluation: \<open>Q\<close>
  stays 0. And when White mates, and so Black, the side that has lost, is to move after
  the move, the evaluation is 128, not negative.
\<close>

theorem mate_evaluation_counterexample:
  "move_is_mate uncommented_mate \<and> move_evaluation uncommented_mate = Inr No_comment \<and>
   move_Q uncommented_mate = 0 \<and>
   move_is_mate commented_mate \<and> \<not> IsBlackToMove (Last (position_history commented_mate)) \<and>
   move_evaluation commented_mate = Inr (Evaluation 128)"
  by (simp add: move_evaluation_def fishtest_score_def move_Q_def commented_mate_def
        uncommented_mate_def uncommented_e4_def white_history_def white_position_def)

subsection \<open>A move without a comment\<close>

text \<open>
  Outside the fishtest mode a legal move without a comment goes on to the translation
  with \<open>Q = 0\<close> and without a writer being created for it. When its glyph filters it,
  nothing is written and the loop goes on to the next move.
\<close>

lemma uncommented_move_turn:
  assumes "\<not> fishtest_mode options" and "last_read_comment t = []"
    and "move_from_san t = Some move" and "move_is_legal t"
  shows "process_move nn max_dir options gr t st =
           (case emit_move nn gr t move 0 st of
              Inl e \<Rightarrow> Inl e
            | Inr st2 \<Rightarrow> Inr (Continue st2))"
proof -
  have "move_evaluation t = Inr No_comment"
    using assms(2) by (simp add: move_evaluation_def)
  then show ?thesis
    using assms(1) by (simp add: process_move_legal [OF assms(3,4)])
qed


text \<open>
  C2. Outside the fishtest mode, a legal move that has no comment and that no glyph
  filters, in a game that has no writer yet, is neither skipped nor followed by the next
  move: its record is built (the indices of the moves lie inside the array) and the
  chunk is written through the null pointer.
\<close>

theorem uncommented_move_reaches_null_writer:
  assumes "\<not> fishtest_mode options" and "last_read_comment t = []"
    and "move_from_san t = Some move" and "move_is_legal t"
    and "\<not> bad_move_of (last_read_nag t)"
    and "writer st = None"
    and "poly_move_to_lc0_move move (move_is_castle t) (turn_is_black t) = Inr lc0"
    and "nn lc0 < kNumOutputPolicy"
    and "\<forall>m \<in> set (GenerateLegalMoves t). nn m < kNumOutputPolicy"
  shows "process_move nn max_dir options gr t st = Inl Null_writer"
proof -
  from get_v4_training_data_total [OF assms(8,9)] obtain chunk where
    "get_v4_training_data nn gr (position_history t) lc0 (GenerateLegalMoves t) 0 = Inr chunk"
    by blast
  then have "emit_move nn gr t move 0 st = Inl Null_writer"
    using assms(5,6) by (simp add: emit_move_eq [OF assms(7)])
  then show ?thesis
    by (simp add: uncommented_move_turn [OF assms(1-4)])
qed

theorem uncommented_move_reaches_null_writer_witness:
  "\<not> fishtest_mode non_strict \<and> last_read_comment uncommented_e4 = [] \<and>
   move_is_legal uncommented_e4 \<and> \<not> bad_move_of (last_read_nag uncommented_e4) \<and>
   writer (new_game 0) = None \<and>
   process_move example_index 10000 non_strict WHITE_WON uncommented_e4 (new_game 0)
     = Inl Null_writer"
proof -
  have ns: "\<not> fishtest_mode non_strict"
    by (simp add: non_strict_def)
  have e: "last_read_comment uncommented_e4 = []"
    by (simp add: uncommented_e4_def)
  have mv: "move_from_san uncommented_e4 = Some e2e4"
    by (simp add: uncommented_e4_def)
  have legal: "move_is_legal uncommented_e4"
    by (simp add: uncommented_e4_def)
  have nb: "\<not> bad_move_of (last_read_nag uncommented_e4)"
    by (simp add: uncommented_e4_def bad_move_of_def)
  have w: "writer (new_game 0) = None"
    by (simp add: new_game_def)
  have lc0: "poly_move_to_lc0_move e2e4 (move_is_castle uncommented_e4)
               (turn_is_black uncommented_e4) = Inr lc0_e2e4"
    using lc0_of_e2e4 by (simp add: uncommented_e4_def)
  have i1: "example_index lc0_e2e4 < kNumOutputPolicy"
    by (simp add: example_index_def lc0_e2e4_def Move_of_def kNumOutputPolicy_def)
  have i2: "\<forall>m \<in> set (GenerateLegalMoves uncommented_e4). example_index m < kNumOutputPolicy"
    by (simp add: uncommented_e4_def example_index_def lc0_e2e4_def lc0_d2d4_def Move_of_def
          kNumOutputPolicy_def)
  from uncommented_move_reaches_null_writer [OF ns e mv legal nb w lc0 i1 i2]
  have "process_move example_index 10000 non_strict WHITE_WON uncommented_e4 (new_game 0)
          = Inl Null_writer" .
  with ns e legal nb w show ?thesis by simp
qed

subsection \<open>A move that is not among the legal moves\<close>





section \<open>Game ids and directories\<close>

text \<open>
  The writers that \<^verbatim>\<open>main\<close> leaves behind are numbered in order from the first game
  id, whatever number of games in between created no writer, and the writer with id \<open>N\<close>
  has directory \<open>N div max_games_per_directory\<close>.
\<close>

lemma emit_move_writer_of_game:
  assumes "emit_move nn gr t move Q st = Inr st'" and "writer_of_game max_dir gid st"
  shows "writer_of_game max_dir gid st'"
proof (cases "bad_move_of (last_read_nag t)")
  case True
  with emit_move_Inr [OF assms(1)] have "writer st' = writer st" "game_id st' = game_id st"
    by auto
  with assms(2) show ?thesis by (simp add: writer_of_game_def split: option.splits)
next
  case False
  with emit_move_Inr [OF assms(1)] obtain chunk w where
    "writer st = Some w" "writer st' = Some (w\<lparr>chunks := chunks w @ [chunk]\<rparr>)"
    by auto
  with assms(2) show ?thesis by (simp add: writer_of_game_def)
qed

lemma init_writer_writer_of_game:
  assumes "init_writer max_dir st = Inr st1" and "writer_of_game max_dir gid st"
  shows "writer_of_game max_dir gid st1"
proof (cases "writer st")
  case None
  with init_writer_Inr [OF assms(1)] assms(2) show ?thesis
    by (simp add: writer_of_game_def)
next
  case (Some w)
  with init_writer_Inr [OF assms(1)] assms(2) show ?thesis
    by simp
qed

lemma process_move_writer_of_game:
  assumes "process_move nn max_dir options gr t st = Inr s" and "writer_of_game max_dir gid st"
  shows "writer_of_game max_dir gid (loop_state s)"
proof (cases "reaches_translation options t")
  case False
  from process_move_stops [OF assms(1) False] assms(2) show ?thesis
    by (simp add: writer_of_game_def split: option.splits)
next
  case True
  from process_move_goes_on [OF assms(1) True] obtain move st1 where
    st1: "if last_read_comment t = [] then st1 = st else init_writer max_dir st = Inr st1" and
    emit: "emit_move nn gr t move (move_Q t) st1 = Inr (loop_state s)"
    by blast
  have "writer_of_game max_dir gid st1"
  proof (cases "last_read_comment t = []")
    case True
    with st1 assms(2) show ?thesis by simp
  next
    case False
    with st1 have "init_writer max_dir st = Inr st1" by simp
    from init_writer_writer_of_game [OF this assms(2)] show ?thesis .
  qed
  from emit_move_writer_of_game [OF emit this] show ?thesis .
qed

lemma process_moves_writer_of_game:
  assumes "process_moves nn max_dir options gr ts st = Inr st'"
    and "writer_of_game max_dir gid st"
  shows "writer_of_game max_dir gid st'"
  using assms
proof (induction ts arbitrary: st)
  case Nil
  then show ?case by simp
next
  case (Cons t ts)
  show ?case
  proof (cases "process_move nn max_dir options gr t st")
    case (Inl e)
    with Cons.prems(1) show ?thesis by simp
  next
    case (Inr s)
    from process_move_writer_of_game [OF Inr Cons.prems(2)]
    have inv: "writer_of_game max_dir gid (loop_state s)" .
    show ?thesis
    proof (cases s)
      case (Continue st1)
      with Inr Cons.prems(1) have "process_moves nn max_dir options gr ts st1 = Inr st'"
        by simp
      moreover from inv Continue have "writer_of_game max_dir gid st1"
        by (simp add: loop_state_def)
      ultimately show ?thesis by (rule Cons.IH)
    next
      case (Break st1)
      with Inr Cons.prems(1) have "st' = st1" by simp
      with inv Break show ?thesis by (simp add: loop_state_def)
    qed
  qed
qed

lemma write_one_game_training_data_writer:
  assumes "write_one_game_training_data nn max_dir pgn gid options = Inr (written, st)"
  shows "written = (writer st \<noteq> None)"
    and "writer st = Some w \<Longrightarrow> writer_game_id w = gid \<and> directory w = gid div max_dir"
proof -
  from assms obtain st0 where
    pm: "process_moves nn max_dir options (game_result_of (pgn_result pgn)) (pgn_moves pgn)
           \<lparr>writer = None, game_id = gid, cout = []\<rparr> = Inr st0" and
    st: "st = st0\<lparr>writer := map_option (\<lambda>w. w\<lparr>finalized := True\<rparr>) (writer st0)\<rparr>" and
    wr: "written = (writer st \<noteq> None)"
    by (auto simp: write_one_game_training_data_def Let_def split: sum.splits)
  show "written = (writer st \<noteq> None)" by (rule wr)
  have "writer_of_game max_dir gid \<lparr>writer = None, game_id = gid, cout = []\<rparr>"
    by (simp add: writer_of_game_def)
  from process_moves_writer_of_game [OF pm this]
  have inv: "writer_of_game max_dir gid st0" .
  show "writer_game_id w = gid \<and> directory w = gid div max_dir" if "writer st = Some w"
    using that st inv by (cases "writer st0") (auto simp: writer_of_game_def)
qed

lemma convert_games_partition:
  assumes "convert_games nn max_dir max_conv options games (gid, out) = Inr (gid', out')"
  shows "\<exists>new. out' = out @ new \<and> gid' = gid + length new \<and>
           (\<forall>k < length new. writer_game_id (new ! k) = gid + k \<and>
                              directory (new ! k) = (gid + k) div max_dir)"
  using assms
proof (induction games arbitrary: gid out)
  case Nil
  then show ?case by simp
next
  case (Cons pgn rest)
  show ?case
  proof (cases "gid < max_conv")
    case False
    with Cons.prems show ?thesis by simp
  next
    case True
    show ?thesis
    proof (cases "write_one_game_training_data nn max_dir pgn gid options")
      case (Inl e)
      with True Cons.prems show ?thesis by simp
    next
      case (Inr res)
      obtain written st where res: "res = (written, st)" by (cases res)
      note one = write_one_game_training_data_writer [OF Inr [unfolded res]]
      show ?thesis
      proof (cases "writer st")
        case None
        with one(1) have "\<not> written" by simp
        with True Inr res None Cons.prems
        have "convert_games nn max_dir max_conv options rest (gid, out) = Inr (gid', out')"
          by simp
        from Cons.IH [OF this] show ?thesis .
      next
        case (Some w)
        with one(1) have "written" by simp
        with True Inr res Some Cons.prems
        have "convert_games nn max_dir max_conv options rest (gid + 1, out @ [w])
                = Inr (gid', out')"
          by simp
        from Cons.IH [OF this] obtain new where
          new: "out' = (out @ [w]) @ new" "gid' = gid + 1 + length new"
            "\<forall>k < length new. writer_game_id (new ! k) = gid + 1 + k \<and>
                                directory (new ! k) = (gid + 1 + k) div max_dir"
          by blast
        from one(2) [OF Some] have w: "writer_game_id w = gid \<and> directory w = gid div max_dir" .
        have "\<forall>k < length (w # new). writer_game_id ((w # new) ! k) = gid + k \<and>
                directory ((w # new) ! k) = (gid + k) div max_dir"
        proof (intro allI impI)
          fix k assume "k < length (w # new)"
          then show "writer_game_id ((w # new) ! k) = gid + k \<and>
                directory ((w # new) ! k) = (gid + k) div max_dir"
            using w new(3) by (cases k) auto
        qed
        moreover have "out' = out @ (w # new)" using new(1) by simp
        moreover have "gid' = gid + length (w # new)" using new(2) by simp
        ultimately show ?thesis by blast
      qed
    qed
  qed
qed

lemma convert_files_partition:
  assumes "convert_files nn max_dir max_conv options files (gid, out) = Inr (gid', out')"
  shows "\<exists>new. out' = out @ new \<and> gid' = gid + length new \<and>
           (\<forall>k < length new. writer_game_id (new ! k) = gid + k \<and>
                              directory (new ! k) = (gid + k) div max_dir)"
  using assms
proof (induction files arbitrary: gid out)
  case Nil
  then show ?case by simp
next
  case (Cons f files)
  show ?case
  proof (cases "convert_games nn max_dir max_conv options f (gid, out)")
    case (Inl e)
    with Cons.prems show ?thesis by simp
  next
    case (Inr acc)
    obtain gid1 out1 where acc: "acc = (gid1, out1)" by (cases acc)
    from convert_games_partition [OF Inr [unfolded acc]] obtain new1 where
      n1: "out1 = out @ new1" "gid1 = gid + length new1"
        "\<forall>k < length new1. writer_game_id (new1 ! k) = gid + k \<and>
                             directory (new1 ! k) = (gid + k) div max_dir"
      by blast
    from Inr acc Cons.prems
    have "convert_files nn max_dir max_conv options files (gid1, out1) = Inr (gid', out')"
      by simp
    from Cons.IH [OF this] obtain new2 where
      n2: "out' = out1 @ new2" "gid' = gid1 + length new2"
        "\<forall>k < length new2. writer_game_id (new2 ! k) = gid1 + k \<and>
                             directory (new2 ! k) = (gid1 + k) div max_dir"
      by blast
    have "\<forall>k < length (new1 @ new2). writer_game_id ((new1 @ new2) ! k) = gid + k \<and>
            directory ((new1 @ new2) ! k) = (gid + k) div max_dir"
    proof (intro allI impI)
      fix k assume k: "k < length (new1 @ new2)"
      show "writer_game_id ((new1 @ new2) ! k) = gid + k \<and>
            directory ((new1 @ new2) ! k) = (gid + k) div max_dir"
      proof (cases "k < length new1")
        case True
        with n1(3) show ?thesis by (simp add: nth_append)
      next
        case False
        with k have "k - length new1 < length new2" by simp
        from n2(3) [rule_format, OF this] False n1(2) show ?thesis
          by (simp add: nth_append)
      qed
    qed
    moreover have "out' = out @ (new1 @ new2)" using n1(1) n2(1) by simp
    moreover have "gid' = gid + length (new1 @ new2)" using n1(2) n2(2) by simp
    ultimately show ?thesis by blast
  qed
qed

lemma main_partition:
  assumes "main nn max_dir max_conv options files = Inr (gid, out)"
  shows "gid = length out"
    and "\<forall>N < length out. writer_game_id (out ! N) = N \<and> directory (out ! N) = N div max_dir"
  using convert_files_partition [OF assms [unfolded main_def]] by auto

end
